theory Spec2Isabelle
  imports Main
begin

section \<open>Data model (dataHandler/data.go)\<close>

text \<open>
  The structs of package dataHandler. Go strings are byte sequences, so \<open>len(s) == 0\<close>
  is \<open>s = []\<close>. Field names that several structs share carry the struct's name.
\<close>

record Author =
  Author_Name :: string
  Author_Home :: string

record Book =
  Book_Name :: string
  Authors :: "Author list"
  ISBN :: string
  Genre :: string
  Pub :: string

record Credentials =
  Username :: string
  Password :: string

type_synonym BookDB = "string \<rightharpoonup> Book"
type_synonym CredentialDB = "string \<rightharpoonup> string"

text \<open>
  The package-level variables \<open>BookList\<close> and \<open>CredentialList\<close>. Every handler reads
  and writes them directly, so a handler is a function from the globals to the globals.
\<close>

record Globals =
  BookList :: BookDB
  CredentialList :: CredentialDB

definition author1 :: Author where
  "author1 = \<lparr>Author_Name = ''Sadia Sornaly'', Author_Home = ''Korea''\<rparr>"

definition author2 :: Author where
  "author2 = \<lparr>Author_Name = ''Shahana'', Author_Home = ''America''\<rparr>"

definition book1 :: Book where
  "book1 = \<lparr>Book_Name = ''Book 1'', Authors = [author1, author2], ISBN = ''ISBN 1'',
     Genre = ''Thriller'', Pub = ''Unknown''\<rparr>"

definition book2 :: Book where
  "book2 = \<lparr>Book_Name = ''Book 2'', Authors = [author1], ISBN = ''ISBN 2'',
     Genre = ''Science Fiction'', Pub = ''Tor Books''\<rparr>"

definition Init :: Globals where
  "Init = \<lparr>BookList = [ISBN book1 \<mapsto> book1, ISBN book2 \<mapsto> book2],
     CredentialList = [''sabnaj'' \<mapsto> ''1234'', ''Admin'' \<mapsto> ''5678'']\<rparr>"


section \<open>Time, cookies and the response writer (net/http)\<close>

text \<open>
  A \<open>time.Time\<close> is the number of nanoseconds since the Unix epoch and a
  \<open>time.Duration\<close> a number of nanoseconds; \<open>t.Add(d)\<close> is \<open>t + d\<close>.
\<close>

type_synonym Time = int
type_synonym Duration = int

definition Second :: Duration where
  "Second = 1000000000"

definition Minute :: Duration where
  "Minute = 60 * Second"

text \<open>The fields of \<open>http.Cookie\<close> the handlers set; all others keep their zero value.\<close>

record Cookie =
  Cookie_Name :: string
  Value :: string
  Expires :: Time

text \<open>
  A cookie is expired at the instant \<open>t\<close> when its expiry date lies in the past of \<open>t\<close>.
\<close>

definition expired_at :: "Time \<Rightarrow> Cookie \<Rightarrow> bool" where
  "expired_at t c = (Expires c < t)"

abbreviation StatusOK :: nat where "StatusOK \<equiv> 200"
abbreviation StatusCreated :: nat where "StatusCreated \<equiv> 201"
abbreviation StatusBadRequest :: nat where "StatusBadRequest \<equiv> 400"
abbreviation StatusNotFound :: nat where "StatusNotFound \<equiv> 404"
abbreviation StatusMethodNotAllowed :: nat where "StatusMethodNotAllowed \<equiv> 405"
abbreviation StatusConflict :: nat where "StatusConflict \<equiv> 409"
abbreviation StatusInternalServerError :: nat where "StatusInternalServerError \<equiv> 500"

text \<open>
  The state of an \<open>http.ResponseWriter\<close>:
  \<^item> \<open>Header\<close> is the header map, \<open>SetCookies\<close> its \<open>Set-Cookie\<close> entries in order;
  \<^item> \<open>Code\<close> is the status once the header is written (\<open>None\<close> before);
  \<^item> \<open>Body\<close> is what has been written;
  \<^item> \<open>Errors\<close> lists the calls of \<open>http.Error\<close> made so far, oldest first;
  \<^item> \<open>broken\<close> is the environment's side: whether \<open>Write\<close> returns an error.
\<close>

record ResponseWriter =
  Header :: "string \<rightharpoonup> string"
  SetCookies :: "Cookie list"
  Code :: "nat option"
  Body :: string
  Errors :: "(string \<times> nat) list"
  broken :: bool

definition NewWriter :: "bool \<Rightarrow> ResponseWriter" where
  "NewWriter b = \<lparr>Header = Map.empty, SetCookies = [], Code = None, Body = [],
     Errors = [], broken = b\<rparr>"

text \<open>Only the first \<open>WriteHeader\<close> counts; a later one is superfluous and ignored.\<close>

definition WriteHeader :: "ResponseWriter \<Rightarrow> nat \<Rightarrow> ResponseWriter" where
  "WriteHeader w code = (if Code w = None then w\<lparr>Code := Some code\<rparr> else w)"

text \<open>
  \<open>Write\<close> first writes the header with status 200 when none was written, then the
  data. The second component says whether it returned without an error.
\<close>

definition Write :: "ResponseWriter \<Rightarrow> string \<Rightarrow> ResponseWriter \<times> bool" where
  "Write w bs =
     (let w1 = WriteHeader w StatusOK
      in if broken w then (w1, False) else (w1\<lparr>Body := Body w1 @ bs\<rparr>, True))"

definition Header_Set :: "ResponseWriter \<Rightarrow> string \<Rightarrow> string \<Rightarrow> ResponseWriter" where
  "Header_Set w k v = w\<lparr>Header := (Header w)(k \<mapsto> v)\<rparr>"

definition Header_Del :: "ResponseWriter \<Rightarrow> string \<Rightarrow> ResponseWriter" where
  "Header_Del w k = w\<lparr>Header := (Header w)(k := None)\<rparr>"

definition SetCookie :: "ResponseWriter \<Rightarrow> Cookie \<Rightarrow> ResponseWriter" where
  "SetCookie w c = w\<lparr>SetCookies := SetCookies w @ [c]\<rparr>"

text \<open>
  \<open>http.Error(w, msg, code)\<close>: plain-text headers, the status, and the message followed
  by a newline; the result of its write is dropped.
\<close>

definition http_Error :: "ResponseWriter \<Rightarrow> string \<Rightarrow> nat \<Rightarrow> ResponseWriter" where
  "http_Error w msg code =
     (let w1 = Header_Del w ''Content-Length'';
          w2 = Header_Set w1 ''Content-Type'' ''text/plain; charset=utf-8'';
          w3 = Header_Set w2 ''X-Content-Type-Options'' ''nosniff'';
          w4 = WriteHeader w3 code;
          w5 = fst (Write w4 (msg @ [CHR 0x0A]))
      in w5\<lparr>Errors := Errors w5 @ [(msg, code)]\<rparr>)"


section \<open>Requests and the libraries the handlers call\<close>

text \<open>
  What the router and a handler can see of an \<open>http.Request\<close>: the method, the path,
  the body (\<open>None\<close> when reading it fails), the URL parameters that chi bound for the
  matched route, and the cookies the client sent.
\<close>

record Request =
  Method :: string
  URL_Path :: string
  Req_Body :: "string option"
  URLParams :: "(string \<times> string) list"
  Cookies :: "(string \<times> string) list"

text \<open>\<open>chi.URLParam\<close> is the empty string for a parameter the route does not have.\<close>

definition URLParam :: "Request \<Rightarrow> string \<Rightarrow> string" where
  "URLParam r key = (case map_of (URLParams r) key of None \<Rightarrow> [] | Some v \<Rightarrow> v)"

datatype SignatureAlgorithm = HS256 | HS384 | HS512 | RS256 | ES256 | NoSignature

definition Secret :: string where
  "Secret = ''this_is_my_secret_key''"

text \<open>The claims collected by \<open>jwt.NewBuilder()\<close> before \<open>Build\<close>.\<close>

record Builder =
  aud_claim :: "string list option"
  exp_claim :: "Time option"

definition NewBuilder :: Builder where
  "NewBuilder = \<lparr>aud_claim = None, exp_claim = None\<rparr>"

definition Audience :: "Builder \<Rightarrow> string list \<Rightarrow> Builder" where
  "Audience b v = b\<lparr>aud_claim := Some v\<rparr>"

definition Expiration :: "Builder \<Rightarrow> Time \<Rightarrow> Builder" where
  "Expiration b t = b\<lparr>exp_claim := Some t\<rparr>"

text \<open>
  The clock and the library functions are inputs of the handlers: encoding/json and
  jwx are used as black boxes, and \<open>None\<close> is their error return. \<open>'tok\<close> is the
  library's token type.
\<close>

record 'tok Env =
  time_Now :: Time
  json_Decode_Credentials :: "string \<Rightarrow> Credentials option"
  json_Unmarshal_Credentials :: "string \<Rightarrow> Credentials option"
  json_Decode_Book :: "string \<Rightarrow> Book option"
  json_Encode_BookDB :: "BookDB \<Rightarrow> string option"
  jwt_Build :: "Builder \<Rightarrow> 'tok option"
  jwt_Sign :: "SignatureAlgorithm \<Rightarrow> string \<Rightarrow> 'tok \<Rightarrow> string option"

text \<open>\<open>json.NewDecoder(r.Body).Decode(&v)\<close> fails when the body cannot be read.\<close>

definition Decode_Credentials :: "'tok Env \<Rightarrow> Request \<Rightarrow> Credentials option" where
  "Decode_Credentials e r =
     (case Req_Body r of None \<Rightarrow> None | Some bs \<Rightarrow> json_Decode_Credentials e bs)"

definition Decode_Book :: "'tok Env \<Rightarrow> Request \<Rightarrow> Book option" where
  "Decode_Book e r =
     (case Req_Body r of None \<Rightarrow> None | Some bs \<Rightarrow> json_Decode_Book e bs)"


section \<open>The handlers (authHandler/auth.go, apiHandler, main.go)\<close>

text \<open>
  The three copies of the handlers in the repository differ only in the names of the
  global maps. A handler takes the writer, the request and the globals and returns the
  writer and the globals as it leaves them; each early \<open>return\<close> is a branch.
\<close>

type_synonym 'tok Handler =
  "'tok Env \<Rightarrow> ResponseWriter \<Rightarrow> Request \<Rightarrow> Globals \<Rightarrow> ResponseWriter \<times> Globals"

definition Login :: "'tok Handler" where
  "Login e w r g =
     (case Decode_Credentials e r of
        None \<Rightarrow> (http_Error w ''Cannot decode data'' StatusBadRequest, g)
      | Some cred \<Rightarrow>
          (case CredentialList g (Username cred) of
             None \<Rightarrow> (http_Error w ''User not found'' StatusNotFound, g)
           | Some password \<Rightarrow>
               if password \<noteq> Password cred
               then (http_Error w ''Wrong password'' StatusNotFound, g)
               else
                 let et = time_Now e + 20 * Minute in
                 (case jwt_Build e (Expiration (Audience NewBuilder [''sabnaj'']) et) of
                    None \<Rightarrow>
                      (http_Error w ''Cannot create token'' StatusInternalServerError, g)
                  | Some token \<Rightarrow>
                      (case jwt_Sign e HS256 Secret token of
                         None \<Rightarrow>
                           (http_Error w ''Cannot sign token'' StatusInternalServerError, g)
                       | Some signed \<Rightarrow>
                           let w1 = SetCookie w
                                      \<lparr>Cookie_Name = ''jwt'', Value = signed, Expires = et\<rparr>;
                               w2 = fst (Write w1 ''Login successful'')
                           in (WriteHeader w2 StatusOK, g)))))"

definition Logout :: "'tok Handler" where
  "Logout e w r g =
     (let w1 = SetCookie w \<lparr>Cookie_Name = ''jwt'', Value = [], Expires = time_Now e\<rparr>
      in (WriteHeader w1 StatusOK, g))"

definition SignIn :: "'tok Handler" where
  "SignIn e w r g =
     (if Method r \<noteq> ''POST''
      then (http_Error w ''Invalid request method'' StatusMethodNotAllowed, g)
      else
        (case Req_Body r of
           None \<Rightarrow> (http_Error w ''Unable to read request body'' StatusBadRequest, g)
         | Some body \<Rightarrow>
             (case json_Unmarshal_Credentials e body of
                None \<Rightarrow> (http_Error w ''Invalid JSON format'' StatusBadRequest, g)
              | Some user \<Rightarrow>
                  (case CredentialList g (Username user) of
                     Some _ \<Rightarrow> (http_Error w ''User already exists'' StatusConflict, g)
                   | None \<Rightarrow>
                       let g1 = g\<lparr>CredentialList :=
                                   (CredentialList g)(Username user \<mapsto> Password user)\<rparr>;
                           w1 = WriteHeader w StatusCreated;
                           w2 = fst (Write w1
                                  (''User '' @ Username user @ '' registered successfully''))
                       in (w2, g1)))))"

definition getAllBooks :: "'tok Handler" where
  "getAllBooks e w r g =
     (let w1 = Header_Set w ''Content-Type'' ''application/json''
      in case json_Encode_BookDB e (BookList g) of
           None \<Rightarrow> (http_Error w1 ''Cannot encode data'' StatusInternalServerError, g)
         | Some js \<Rightarrow>
             (case Write w1 js of
                (w2, ok) \<Rightarrow>
                  if \<not> ok
                  then (http_Error w2 ''Cannot encode data'' StatusInternalServerError, g)
                  else (WriteHeader w2 StatusOK, g)))"

definition AddNewBook :: "'tok Handler" where
  "AddNewBook e w r g =
     (case Decode_Book e r of
        None \<Rightarrow> (http_Error w ''Cannot decode data'' StatusBadRequest, g)
      | Some book \<Rightarrow>
          if Book_Name book = [] \<or> ISBN book = [] \<or> Authors book = []
          then (http_Error w ''Invalid Data Entry'' StatusBadRequest, g)
          else
            (case BookList g (ISBN book) of
               Some _ \<Rightarrow> (http_Error w ''Book already exists'' StatusConflict, g)
             | None \<Rightarrow>
                 (WriteHeader w StatusCreated,
                  g\<lparr>BookList := (BookList g)(ISBN book \<mapsto> book)\<rparr>)))"

definition deleteBook :: "'tok Handler" where
  "deleteBook e w r g =
     (let isbn = URLParam r ''ISBN''
      in if isbn = []
         then (http_Error w ''Invalid ISBN'' StatusBadRequest, g)
         else
           (case BookList g isbn of
              None \<Rightarrow> (http_Error w ''Book does not exist'' StatusNotFound, g)
            | Some _ \<Rightarrow>
                (WriteHeader w StatusOK, g\<lparr>BookList := (BookList g)(isbn := None)\<rparr>)))"

text \<open>
  In \<open>updateBook\<close> the map is assigned before the success text is written, and the
  branch for a failed write does not return: the final \<open>WriteHeader\<close> runs after it.
\<close>

definition updateBook :: "'tok Handler" where
  "updateBook e w r g =
     (let isbn = URLParam r ''ISBN''
      in if isbn = []
         then (http_Error w ''Invalid ISBN'' StatusBadRequest, g)
         else
           (case BookList g isbn of
              None \<Rightarrow> (http_Error w ''Book does not exist'' StatusNotFound, g)
            | Some _ \<Rightarrow>
                (case Decode_Book e r of
                   None \<Rightarrow> (http_Error w ''Cannot decode data'' StatusBadRequest, g)
                 | Some newBook \<Rightarrow>
                     let g1 = g\<lparr>BookList := (BookList g)(isbn \<mapsto> newBook)\<rparr>
                     in (case Write w ''Book updated successfully'' of
                           (w1, ok) \<Rightarrow>
                             let w2 = (if \<not> ok
                                       then http_Error w1 ''Can not write data''
                                              StatusInternalServerError
                                       else w1)
                             in (WriteHeader w2 StatusOK, g1)))))"


section \<open>The routes (RunServer, main)\<close>

text \<open>
  \<open>RunServer\<close> and \<open>main\<close> call \<open>Init\<close> and register the handlers below, each as it is:
  the only middleware is chi's RequestID, Logger, Recoverer and URLFormat, none of which
  checks a session. Every pattern is static, so chi matches the method and the path as
  they are and binds no URL parameter. \<open>ServeHTTP\<close> is \<open>None\<close> when no route matches and
  chi answers by itself.
\<close>

definition RunServer_routes :: "(string \<times> string \<times> 'tok Handler) list" where
  "RunServer_routes =
     [(''POST'', ''/signIn'', SignIn),
      (''POST'', ''/login'', Login),
      (''POST'', ''/logout'', Logout),
      (''POST'', ''/newBook'', AddNewBook),
      (''PUT'', ''/updateBook'', updateBook),
      (''DELETE'', ''/deleteBook'', deleteBook),
      (''GET'', ''/getBooks'', getAllBooks)]"

definition ServeHTTP ::
  "'tok Env \<Rightarrow> ResponseWriter \<Rightarrow> Request \<Rightarrow> Globals \<Rightarrow> (ResponseWriter \<times> Globals) option"
  where
  "ServeHTTP e w r g =
     (case find (\<lambda>(m, p, h). m = Method r \<and> p = URL_Path r) RunServer_routes of
        None \<Rightarrow> None
      | Some (m, p, h) \<Rightarrow> Some (h e w (r\<lparr>URLParams := []\<rparr>) g))"


section \<open>Concrete inputs\<close>

text \<open>
  Credentials, books, an environment and requests at which the theorems below are
  instantiated. The JSON decoders of \<open>test_env\<close> are lookup tables from a body to the
  value it decodes to; its clock reads a whole number of seconds, 1700000000.
\<close>

definition alice_pw1 :: Credentials where
  "alice_pw1 = \<lparr>Username = ''alice'', Password = ''pw1''\<rparr>"

definition alice_pw2 :: Credentials where
  "alice_pw2 = \<lparr>Username = ''alice'', Password = ''pw2''\<rparr>"

definition sabnaj_1234 :: Credentials where
  "sabnaj_1234 = \<lparr>Username = ''sabnaj'', Password = ''1234''\<rparr>"

definition sabnaj_wrong :: Credentials where
  "sabnaj_wrong = \<lparr>Username = ''sabnaj'', Password = ''wrong''\<rparr>"

definition dune :: Book where
  "dune = \<lparr>Book_Name = ''Dune'',
     Authors = [\<lparr>Author_Name = ''Herbert'', Author_Home = []\<rparr>], ISBN = ''ISBN-9'',
     Genre = [], Pub = []\<rparr>"

definition nameless :: Book where
  "nameless = \<lparr>Book_Name = [], Authors = [author1], ISBN = ''ISBN 1'',
     Genre = ''Thriller'', Pub = ''Unknown''\<rparr>"

definition reissue :: Book where
  "reissue = \<lparr>Book_Name = ''Book 1'', Authors = [author1], ISBN = ''ISBN 1'',
     Genre = [], Pub = []\<rparr>"

definition renumbered :: Book where
  "renumbered = \<lparr>Book_Name = ''Book 1'', Authors = [author1, author2], ISBN = ''ISBN 3'',
     Genre = ''Thriller'', Pub = ''Unknown''\<rparr>"

definition test_env :: "Builder Env" where
  "test_env = \<lparr>time_Now = 1700000000 * Second,
     json_Decode_Credentials = map_of [(''alice/pw1'', alice_pw1), (''alice/pw2'', alice_pw2),
        (''sabnaj/1234'', sabnaj_1234), (''sabnaj/wrong'', sabnaj_wrong)],
     json_Unmarshal_Credentials = map_of [(''alice/pw1'', alice_pw1), (''alice/pw2'', alice_pw2),
        (''sabnaj/1234'', sabnaj_1234), (''sabnaj/wrong'', sabnaj_wrong)],
     json_Decode_Book = map_of [(''dune'', dune), (''nameless'', nameless),
        (''reissue'', reissue), (''renumbered'', renumbered)],
     json_Encode_BookDB = (\<lambda>db. Some ''{}''),
     jwt_Build = Some,
     jwt_Sign = (\<lambda>alg key tok. if alg = HS256 then Some (''signed with '' @ key) else None)\<rparr>"

definition test_request :: "string \<Rightarrow> string \<Rightarrow> string \<Rightarrow> Request" where
  "test_request m body isbn =
     \<lparr>Method = m, URL_Path = [], Req_Body = Some body, URLParams = [(''ISBN'', isbn)],
      Cookies = []\<rparr>"


definition routed_request :: "string \<Rightarrow> string \<Rightarrow> string \<Rightarrow> Request" where
  "routed_request m path body =
     \<lparr>Method = m, URL_Path = path, Req_Body = Some body, URLParams = [], Cookies = []\<rparr>"


section \<open>Rules for evaluating the writer and the concrete inputs\<close>

lemmas test_defs = test_env_def test_request_def Decode_Book_def Decode_Credentials_def
  URLParam_def Init_def book1_def book2_def author1_def author2_def


text \<open>What each operation on the writer does to each field the theorems read.\<close>

lemma NewWriter_simps:
  "Code (NewWriter b) = None" "Errors (NewWriter b) = []" "SetCookies (NewWriter b) = []"
  "Body (NewWriter b) = []" "broken (NewWriter b) = b"
  by (simp_all add: NewWriter_def)

lemma WriteHeader_simps:
  "Code (WriteHeader w c) = Some (case Code w of None \<Rightarrow> c | Some c' \<Rightarrow> c')"
  "Errors (WriteHeader w c) = Errors w" "SetCookies (WriteHeader w c) = SetCookies w"
  "Body (WriteHeader w c) = Body w" "broken (WriteHeader w c) = broken w"
  by (simp_all add: WriteHeader_def split: option.splits)

lemma Write_simps:
  "snd (Write w bs) = (\<not> broken w)"
  "Code (fst (Write w bs)) = Some (case Code w of None \<Rightarrow> StatusOK | Some c' \<Rightarrow> c')"
  "Errors (fst (Write w bs)) = Errors w" "SetCookies (fst (Write w bs)) = SetCookies w"
  "Body (fst (Write w bs)) = (if broken w then Body w else Body w @ bs)"
  "broken (fst (Write w bs)) = broken w"
  by (simp_all add: Write_def WriteHeader_def Let_def split: option.splits)

lemma SetCookie_simps:
  "Code (SetCookie w k) = Code w" "Errors (SetCookie w k) = Errors w"
  "SetCookies (SetCookie w k) = SetCookies w @ [k]"
  "Body (SetCookie w k) = Body w" "broken (SetCookie w k) = broken w"
  by (simp_all add: SetCookie_def)

lemma Header_Set_simps:
  "Code (Header_Set w k v) = Code w" "Errors (Header_Set w k v) = Errors w"
  "SetCookies (Header_Set w k v) = SetCookies w"
  "Body (Header_Set w k v) = Body w" "broken (Header_Set w k v) = broken w"
  by (simp_all add: Header_Set_def)

lemma http_Error_simps:
  "Code (http_Error w msg c) = Some (case Code w of None \<Rightarrow> c | Some c' \<Rightarrow> c')"
  "Errors (http_Error w msg c) = Errors w @ [(msg, c)]"
  "SetCookies (http_Error w msg c) = SetCookies w"
  "Body (http_Error w msg c) = (if broken w then Body w else Body w @ msg @ [CHR 0x0A])"
  "broken (http_Error w msg c) = broken w"
  by (simp_all add: http_Error_def Header_Del_def Header_Set_def Write_def WriteHeader_def
      Let_def split: option.splits)

lemmas writer_simps = NewWriter_simps WriteHeader_simps Write_simps SetCookie_simps
  Header_Set_simps http_Error_simps


section \<open>Adding a book\<close>

text \<open>
  Claim C4. For a body that decodes to a book \<open>b\<close>, \<open>AddNewBook\<close> answers 400 and
  leaves the stores alone when the name, the ISBN or the author list of \<open>b\<close> is empty;
  otherwise it answers 409 and leaves the stores alone when the ISBN of \<open>b\<close> is a key
  of the book store; otherwise it stores \<open>b\<close> under its ISBN and answers 201.
\<close>

theorem AddNewBook_cases:
  assumes "Decode_Book e r = Some b"
  shows "(Book_Name b = [] \<or> ISBN b = [] \<or> Authors b = [] \<longrightarrow>
            Code (fst (AddNewBook e (NewWriter br) r g)) = Some StatusBadRequest \<and>
            Errors (fst (AddNewBook e (NewWriter br) r g)) =
              [(''Invalid Data Entry'', StatusBadRequest)] \<and>
            snd (AddNewBook e (NewWriter br) r g) = g) \<and>
         (Book_Name b \<noteq> [] \<and> ISBN b \<noteq> [] \<and> Authors b \<noteq> [] \<and> BookList g (ISBN b) \<noteq> None \<longrightarrow>
            Code (fst (AddNewBook e (NewWriter br) r g)) = Some StatusConflict \<and>
            Errors (fst (AddNewBook e (NewWriter br) r g)) =
              [(''Book already exists'', StatusConflict)] \<and>
            snd (AddNewBook e (NewWriter br) r g) = g) \<and>
         (Book_Name b \<noteq> [] \<and> ISBN b \<noteq> [] \<and> Authors b \<noteq> [] \<and> BookList g (ISBN b) = None \<longrightarrow>
            Code (fst (AddNewBook e (NewWriter br) r g)) = Some StatusCreated \<and>
            Errors (fst (AddNewBook e (NewWriter br) r g)) = [] \<and>
            snd (AddNewBook e (NewWriter br) r g) =
              g\<lparr>BookList := (BookList g)(ISBN b \<mapsto> b)\<rparr>)"
  using assms by (auto simp add: AddNewBook_def writer_simps)

text \<open>The three cases at the initial store.\<close>

theorem AddNewBook_cases_witness:
  "Decode_Book test_env (test_request ''POST'' ''nameless'' []) = Some nameless \<and>
   Book_Name nameless = [] \<and>
   Code (fst (AddNewBook test_env (NewWriter False) (test_request ''POST'' ''nameless'' []) Init))
     = Some StatusBadRequest \<and>
   Decode_Book test_env (test_request ''POST'' ''reissue'' []) = Some reissue \<and>
   Book_Name reissue \<noteq> [] \<and> ISBN reissue \<noteq> [] \<and> Authors reissue \<noteq> [] \<and>
   BookList Init (ISBN reissue) \<noteq> None \<and>
   Code (fst (AddNewBook test_env (NewWriter False) (test_request ''POST'' ''reissue'' []) Init))
     = Some StatusConflict \<and>
   Decode_Book test_env (test_request ''POST'' ''dune'' []) = Some dune \<and>
   Book_Name dune \<noteq> [] \<and> ISBN dune \<noteq> [] \<and> Authors dune \<noteq> [] \<and>
   BookList Init (ISBN dune) = None \<and>
   snd (AddNewBook test_env (NewWriter False) (test_request ''POST'' ''dune'' []) Init)
     = Init\<lparr>BookList := (BookList Init)(ISBN dune \<mapsto> dune)\<rparr> \<and>
   Code (fst (AddNewBook test_env (NewWriter False) (test_request ''POST'' ''dune'' []) Init))
     = Some StatusCreated"
proof -
  have d1: "Decode_Book test_env (test_request ''POST'' ''nameless'' []) = Some nameless"
    by (simp add: test_defs)
  have d2: "Decode_Book test_env (test_request ''POST'' ''reissue'' []) = Some reissue"
    by (simp add: test_defs)
  have d3: "Decode_Book test_env (test_request ''POST'' ''dune'' []) = Some dune"
    by (simp add: test_defs)
  have n1: "Book_Name nameless = []" by (simp add: nameless_def)
  have n2: "Book_Name reissue \<noteq> [] \<and> ISBN reissue \<noteq> [] \<and> Authors reissue \<noteq> [] \<and>
     BookList Init (ISBN reissue) \<noteq> None"
    by (simp add: reissue_def test_defs)
  have n3: "Book_Name dune \<noteq> [] \<and> ISBN dune \<noteq> [] \<and> Authors dune \<noteq> [] \<and>
     BookList Init (ISBN dune) = None"
    by (simp add: dune_def test_defs)
  show ?thesis
    using AddNewBook_cases [OF d1, of False Init] AddNewBook_cases [OF d2, of False Init]
      AddNewBook_cases [OF d3, of False Init] d1 d2 d3 n1 n2 n3
    by simp
qed

text \<open>
  A book whose ISBN is already a key of the store but whose name is empty is turned
  down as invalid data (400), not as an existing book (409): the check of the fields
  comes first.
\<close>

theorem AddNewBook_existing_ISBN_empty_name:
  "Decode_Book test_env (test_request ''POST'' ''nameless'' []) = Some nameless \<and>
   BookList Init (ISBN nameless) = Some book1 \<and>
   Errors (fst (AddNewBook test_env (NewWriter False) (test_request ''POST'' ''nameless'' []) Init))
     = [(''Invalid Data Entry'', StatusBadRequest)] \<and>
   Code (fst (AddNewBook test_env (NewWriter False) (test_request ''POST'' ''nameless'' []) Init))
     \<noteq> Some StatusConflict"
  by (simp add: AddNewBook_def writer_simps test_defs nameless_def)

text \<open>
  Claim C1 (amended). For every book \<open>b\<close> with a non-empty name, a non-empty ISBN and a
  non-empty author list whose ISBN is a key of the book store, \<open>AddNewBook\<close> answers 409
  "Book already exists" and leaves the stores alone, whatever the genre and the
  publisher of \<open>b\<close> are, the empty string included.
\<close>

theorem AddNewBook_existing_ISBN:
  assumes "Decode_Book e r = Some b"
    and "BookList g (ISBN b) = Some old"
    and "Book_Name b \<noteq> []" and "ISBN b \<noteq> []" and "Authors b \<noteq> []"
  shows "Code (fst (AddNewBook e (NewWriter br) (r::Request) g)) = Some StatusConflict \<and>
         Errors (fst (AddNewBook e (NewWriter br) r g)) =
           [(''Book already exists'', StatusConflict)] \<and>
         snd (AddNewBook e (NewWriter br) r g) = g"
  using assms by (simp add: AddNewBook_def writer_simps)

text \<open>An instance with an empty genre and an empty publisher.\<close>

theorem AddNewBook_existing_ISBN_witness:
  "Decode_Book test_env (test_request ''POST'' ''reissue'' []) = Some reissue \<and>
   BookList Init (ISBN reissue) = Some book1 \<and>
   Book_Name reissue \<noteq> [] \<and> ISBN reissue \<noteq> [] \<and> Authors reissue \<noteq> [] \<and>
   Genre reissue = [] \<and> Pub reissue = [] \<and>
   Code (fst (AddNewBook test_env (NewWriter False) (test_request ''POST'' ''reissue'' []) Init))
     = Some StatusConflict \<and>
   snd (AddNewBook test_env (NewWriter False) (test_request ''POST'' ''reissue'' []) Init) = Init"
proof -
  have d: "Decode_Book test_env (test_request ''POST'' ''reissue'' []) = Some reissue"
    by (simp add: test_defs)
  have p: "BookList Init (ISBN reissue) = Some book1"
    by (simp add: reissue_def test_defs)
  have n: "Book_Name reissue \<noteq> []" "ISBN reissue \<noteq> []" "Authors reissue \<noteq> []"
    by (simp_all add: reissue_def)
  have z: "Genre reissue = [] \<and> Pub reissue = []" by (simp add: reissue_def)
  show ?thesis
    using AddNewBook_existing_ISBN [OF d p n, of False] d p n z by simp
qed


section \<open>Logging in\<close>

text \<open>
  Claim C2. For a body that decodes to a username and a password, \<open>Login\<close> turns the
  request down with 404 exactly when the credential store does not hold this password
  for this username: "User not found" when the username is not a key, "Wrong password"
  when it is a key with another password. When the store holds the pair and the token
  is built and signed, the answer is 200. Whenever an error is reported no cookie is
  set, and the stores are never changed.
\<close>

theorem Login_check:
  assumes "Decode_Credentials e r = Some cred"
  shows "(CredentialList g (Username cred) = None \<longrightarrow>
            Code (fst (Login e (NewWriter br) r g)) = Some StatusNotFound \<and>
            Errors (fst (Login e (NewWriter br) r g)) = [(''User not found'', StatusNotFound)]) \<and>
         (\<forall>stored. CredentialList g (Username cred) = Some stored \<and> stored \<noteq> Password cred \<longrightarrow>
            Code (fst (Login e (NewWriter br) r g)) = Some StatusNotFound \<and>
            Errors (fst (Login e (NewWriter br) r g)) = [(''Wrong password'', StatusNotFound)]) \<and>
         ((Code (fst (Login e (NewWriter br) r g)) = Some StatusNotFound) =
            (CredentialList g (Username cred) \<noteq> Some (Password cred))) \<and>
         (\<forall>tok signed. CredentialList g (Username cred) = Some (Password cred) \<and>
            jwt_Build e (Expiration (Audience NewBuilder [''sabnaj'']) (time_Now e + 20 * Minute))
              = Some tok \<and>
            jwt_Sign e HS256 Secret tok = Some signed \<longrightarrow>
            Code (fst (Login e (NewWriter br) r g)) = Some StatusOK \<and>
            Errors (fst (Login e (NewWriter br) r g)) = []) \<and>
         (Errors (fst (Login e (NewWriter br) r g)) \<noteq> [] \<longrightarrow>
            SetCookies (fst (Login e (NewWriter br) r g)) = []) \<and>
         snd (Login e (NewWriter br) r g) = g"
  using assms by (auto simp add: Login_def Let_def writer_simps split: option.splits)

text \<open>An unknown user, a wrong password and a right one at the initial store.\<close>

theorem Login_check_witness:
  "Decode_Credentials test_env (test_request ''POST'' ''alice/pw1'' []) = Some alice_pw1 \<and>
   CredentialList Init (Username alice_pw1) = None \<and>
   Code (fst (Login test_env (NewWriter False) (test_request ''POST'' ''alice/pw1'' []) Init))
     = Some StatusNotFound \<and>
   SetCookies (fst (Login test_env (NewWriter False) (test_request ''POST'' ''alice/pw1'' []) Init))
     = [] \<and>
   Decode_Credentials test_env (test_request ''POST'' ''sabnaj/wrong'' []) = Some sabnaj_wrong \<and>
   CredentialList Init (Username sabnaj_wrong) = Some ''1234'' \<and>
   ''1234'' \<noteq> Password sabnaj_wrong \<and>
   Errors (fst (Login test_env (NewWriter False) (test_request ''POST'' ''sabnaj/wrong'' []) Init))
     = [(''Wrong password'', StatusNotFound)] \<and>
   SetCookies (fst (Login test_env (NewWriter False) (test_request ''POST'' ''sabnaj/wrong'' []) Init))
     = [] \<and>
   Decode_Credentials test_env (test_request ''POST'' ''sabnaj/1234'' []) = Some sabnaj_1234 \<and>
   CredentialList Init (Username sabnaj_1234) = Some (Password sabnaj_1234) \<and>
   Code (fst (Login test_env (NewWriter False) (test_request ''POST'' ''sabnaj/1234'' []) Init))
     = Some StatusOK"
proof -
  have d1: "Decode_Credentials test_env (test_request ''POST'' ''alice/pw1'' []) = Some alice_pw1"
    by (simp add: test_defs)
  have d2: "Decode_Credentials test_env (test_request ''POST'' ''sabnaj/wrong'' []) = Some sabnaj_wrong"
    by (simp add: test_defs)
  have d3: "Decode_Credentials test_env (test_request ''POST'' ''sabnaj/1234'' []) = Some sabnaj_1234"
    by (simp add: test_defs)
  have c1: "CredentialList Init (Username alice_pw1) = None"
    by (simp add: Init_def alice_pw1_def)
  have c2: "CredentialList Init (Username sabnaj_wrong) = Some ''1234'' \<and>
      ''1234'' \<noteq> Password sabnaj_wrong"
    by (simp add: Init_def sabnaj_wrong_def)
  have c3: "CredentialList Init (Username sabnaj_1234) = Some (Password sabnaj_1234)"
    by (simp add: Init_def sabnaj_1234_def)
  have b3: "jwt_Build test_env (Expiration (Audience NewBuilder [''sabnaj''])
      (time_Now test_env + 20 * Minute)) =
      Some (Expiration (Audience NewBuilder [''sabnaj'']) (time_Now test_env + 20 * Minute))"
    by (simp add: test_env_def)
  have s3: "jwt_Sign test_env HS256 Secret (Expiration (Audience NewBuilder [''sabnaj''])
      (time_Now test_env + 20 * Minute)) = Some (''signed with '' @ Secret)"
    by (simp add: test_env_def)
  show ?thesis
    using Login_check [OF d1, of Init False] Login_check [OF d2, of Init False]
      Login_check [OF d3, of Init False] d1 d2 d3 c1 c2 c3 b3 s3
    by simp
qed

text \<open>
  Claim C3. When \<open>Login\<close> answers 200, the token was built from the audience
  \<open>sabnaj\<close> and the expiration "now plus 20 minutes", it was signed with HS256 under
  \<open>Secret\<close>, and the only cookie set is named \<open>jwt\<close>, carries the signed serialization
  and expires at that same instant.
\<close>

theorem Login_issues_token:
  assumes "Code (fst (Login e (NewWriter br) r g)) = Some StatusOK"
  shows "\<exists>tok signed.
           jwt_Build e \<lparr>aud_claim = Some [''sabnaj''],
                        exp_claim = Some (time_Now e + 20 * Minute)\<rparr> = Some tok \<and>
           jwt_Sign e HS256 Secret tok = Some signed \<and>
           SetCookies (fst (Login e (NewWriter br) r g)) =
             [\<lparr>Cookie_Name = ''jwt'', Value = signed, Expires = time_Now e + 20 * Minute\<rparr>] \<and>
           20 * Minute = (1200000000000 :: int)"
  using assms
  by (auto simp add: Login_def Let_def writer_simps Minute_def Second_def NewBuilder_def
      Audience_def Expiration_def split: option.splits if_splits)

text \<open>The login of \<open>sabnaj\<close> at the second 1700000000: the cookie expires 1200 seconds later.\<close>

theorem Login_issues_token_witness:
  "Code (fst (Login test_env (NewWriter False) (test_request ''POST'' ''sabnaj/1234'' []) Init))
     = Some StatusOK \<and>
   SetCookies (fst (Login test_env (NewWriter False) (test_request ''POST'' ''sabnaj/1234'' []) Init))
     = [\<lparr>Cookie_Name = ''jwt'', Value = ''signed with this_is_my_secret_key'',
          Expires = 1700001200 * 1000000000\<rparr>]"
proof -
  have ok: "Code (fst (Login test_env (NewWriter False)
      (test_request ''POST'' ''sabnaj/1234'' []) Init)) = Some StatusOK"
    by (simp add: Login_def Let_def writer_simps test_defs sabnaj_1234_def NewBuilder_def
        Audience_def Expiration_def Secret_def)
  show ?thesis
    using Login_issues_token [OF ok] ok
    by (auto simp add: test_env_def Secret_def Minute_def Second_def)
qed


section \<open>Registering\<close>

text \<open>
  Claim C6. For a username \<open>u\<close> that is not registered, a POST whose body unmarshals
  to \<open>(u, p)\<close> is answered 201 and adds \<open>u \<mapsto> p\<close> to the credential store; a following
  POST whose body unmarshals to \<open>(u, p')\<close> is answered 409 "User already exists" and
  leaves the stores as they were, so the password stored for \<open>u\<close> is still \<open>p\<close>.
\<close>

theorem SignIn_twice:
  assumes "Method r = ''POST''" and "Req_Body r = Some body"
    and "json_Unmarshal_Credentials e body = Some \<lparr>Username = u, Password = p\<rparr>"
    and "CredentialList g u = None"
    and "Method r' = ''POST''" and "Req_Body r' = Some body'"
    and "json_Unmarshal_Credentials e body' = Some \<lparr>Username = u, Password = p'\<rparr>"
  shows "Code (fst (SignIn e (NewWriter br) r g)) = Some StatusCreated \<and>
         Errors (fst (SignIn e (NewWriter br) r g)) = [] \<and>
         snd (SignIn e (NewWriter br) r g) = g\<lparr>CredentialList := (CredentialList g)(u \<mapsto> p)\<rparr> \<and>
         Code (fst (SignIn e (NewWriter br') r' (snd (SignIn e (NewWriter br) r g))))
           = Some StatusConflict \<and>
         Errors (fst (SignIn e (NewWriter br') r' (snd (SignIn e (NewWriter br) r g))))
           = [(''User already exists'', StatusConflict)] \<and>
         snd (SignIn e (NewWriter br') r' (snd (SignIn e (NewWriter br) r g)))
           = snd (SignIn e (NewWriter br) r g) \<and>
         CredentialList (snd (SignIn e (NewWriter br') r' (snd (SignIn e (NewWriter br) r g)))) u
           = Some p"
  using assms by (simp add: SignIn_def Let_def writer_simps)

text \<open>Registering \<open>alice\<close> twice, with two passwords, at the initial store.\<close>

theorem SignIn_twice_witness:
  "CredentialList Init ''alice'' = None \<and>
   Code (fst (SignIn test_env (NewWriter False) (test_request ''POST'' ''alice/pw1'' []) Init))
     = Some StatusCreated \<and>
   Body (fst (SignIn test_env (NewWriter False) (test_request ''POST'' ''alice/pw1'' []) Init))
     = ''User alice registered successfully'' \<and>
   Code (fst (SignIn test_env (NewWriter False) (test_request ''POST'' ''alice/pw2'' [])
     (snd (SignIn test_env (NewWriter False) (test_request ''POST'' ''alice/pw1'' []) Init))))
     = Some StatusConflict \<and>
   CredentialList (snd (SignIn test_env (NewWriter False) (test_request ''POST'' ''alice/pw2'' [])
     (snd (SignIn test_env (NewWriter False) (test_request ''POST'' ''alice/pw1'' []) Init))))
     ''alice'' = Some ''pw1''"
proof -
  have m: "Method (test_request ''POST'' ''alice/pw1'' []) = ''POST''"
      "Method (test_request ''POST'' ''alice/pw2'' []) = ''POST''"
    by (simp_all add: test_request_def)
  have b: "Req_Body (test_request ''POST'' ''alice/pw1'' []) = Some ''alice/pw1''"
      "Req_Body (test_request ''POST'' ''alice/pw2'' []) = Some ''alice/pw2''"
    by (simp_all add: test_request_def)
  have u1: "json_Unmarshal_Credentials test_env ''alice/pw1''
      = Some \<lparr>Username = ''alice'', Password = ''pw1''\<rparr>"
    by (simp add: test_env_def alice_pw1_def)
  have u2: "json_Unmarshal_Credentials test_env ''alice/pw2''
      = Some \<lparr>Username = ''alice'', Password = ''pw2''\<rparr>"
    by (simp add: test_env_def alice_pw2_def)
  have a: "CredentialList Init ''alice'' = None"
    by (simp add: Init_def)
  have body: "Body (fst (SignIn test_env (NewWriter False)
      (test_request ''POST'' ''alice/pw1'' []) Init)) = ''User alice registered successfully''"
    by (simp add: SignIn_def Let_def writer_simps m b u1 a)
  show ?thesis
    using SignIn_twice [OF m(1) b(1) u1 a m(2) b(2) u2, of False False] a body
    by blast
qed


section \<open>Updating a book\<close>

text \<open>
  A request for an ISBN that is not in the store, with a body that does not decode, is
  answered 404 "Book does not exist", not 400: the store is looked up before the body is
  decoded.
\<close>

theorem updateBook_absent_ISBN_bad_body:
  "URLParam (test_request ''PUT'' ''not a book'' ''ISBN 404'') ''ISBN'' = ''ISBN 404'' \<and>
   Decode_Book test_env (test_request ''PUT'' ''not a book'' ''ISBN 404'') = None \<and>
   BookList Init ''ISBN 404'' = None \<and>
   Errors (fst (updateBook test_env (NewWriter False)
      (test_request ''PUT'' ''not a book'' ''ISBN 404'') Init))
     = [(''Book does not exist'', StatusNotFound)] \<and>
   Code (fst (updateBook test_env (NewWriter False)
      (test_request ''PUT'' ''not a book'' ''ISBN 404'') Init))
     \<noteq> Some StatusBadRequest"
  by (simp add: updateBook_def Let_def case_prod_beta writer_simps test_defs)

text \<open>
  Claim C5 (amended). \<open>updateBook\<close> answers 400 when the ISBN parameter is empty;
  otherwise 404 when the ISBN is not a key of the book store, whether the body decodes
  or not; otherwise 400 when the body does not decode as a book; otherwise it replaces
  the whole record at that ISBN by the decoded book and answers 200, with the text
  "Book updated successfully" when the write of that text succeeds. The three refusals
  leave the stores alone.
\<close>

theorem updateBook_cases:
  "(URLParam r ''ISBN'' = [] \<longrightarrow>
      Code (fst (updateBook e (NewWriter br) r g)) = Some StatusBadRequest \<and>
      Errors (fst (updateBook e (NewWriter br) r g)) = [(''Invalid ISBN'', StatusBadRequest)] \<and>
      snd (updateBook e (NewWriter br) r g) = g) \<and>
   (URLParam r ''ISBN'' \<noteq> [] \<and> BookList g (URLParam r ''ISBN'') = None \<longrightarrow>
      Code (fst (updateBook e (NewWriter br) r g)) = Some StatusNotFound \<and>
      Errors (fst (updateBook e (NewWriter br) r g)) = [(''Book does not exist'', StatusNotFound)] \<and>
      snd (updateBook e (NewWriter br) r g) = g) \<and>
   (URLParam r ''ISBN'' \<noteq> [] \<and> BookList g (URLParam r ''ISBN'') \<noteq> None \<and>
    Decode_Book e r = None \<longrightarrow>
      Code (fst (updateBook e (NewWriter br) r g)) = Some StatusBadRequest \<and>
      Errors (fst (updateBook e (NewWriter br) r g)) = [(''Cannot decode data'', StatusBadRequest)] \<and>
      snd (updateBook e (NewWriter br) r g) = g) \<and>
   (\<forall>newBook. URLParam r ''ISBN'' \<noteq> [] \<and> BookList g (URLParam r ''ISBN'') \<noteq> None \<and>
    Decode_Book e r = Some newBook \<longrightarrow>
      snd (updateBook e (NewWriter br) r g) =
        g\<lparr>BookList := (BookList g)(URLParam r ''ISBN'' \<mapsto> newBook)\<rparr> \<and>
      Code (fst (updateBook e (NewWriter br) r g)) = Some StatusOK \<and>
      (\<not> br \<longrightarrow> Body (fst (updateBook e (NewWriter br) r g)) = ''Book updated successfully'' \<and>
         Errors (fst (updateBook e (NewWriter br) r g)) = []))"
  (is "?empty \<and> ?absent \<and> ?undecodable \<and> ?replaced")
proof -
  have empty: ?empty
    by (simp add: updateBook_def Let_def writer_simps)
  have absent: ?absent
    by (simp add: updateBook_def Let_def writer_simps)
  have undecodable: ?undecodable
    by (auto simp add: updateBook_def Let_def writer_simps)
  have replaced: ?replaced
    by (auto simp add: updateBook_def Let_def case_prod_beta writer_simps)
  show ?thesis
    by (rule conjI [OF empty conjI [OF absent conjI [OF undecodable replaced]]])
qed

text \<open>The four cases at the initial store.\<close>

theorem updateBook_cases_witness:
  "URLParam (test_request ''PUT'' ''renumbered'' []) ''ISBN'' = [] \<and>
   Code (fst (updateBook test_env (NewWriter False) (test_request ''PUT'' ''renumbered'' []) Init))
     = Some StatusBadRequest \<and>
   URLParam (test_request ''PUT'' ''renumbered'' ''ISBN 404'') ''ISBN'' \<noteq> [] \<and>
   BookList Init (URLParam (test_request ''PUT'' ''renumbered'' ''ISBN 404'') ''ISBN'') = None \<and>
   Code (fst (updateBook test_env (NewWriter False)
      (test_request ''PUT'' ''renumbered'' ''ISBN 404'') Init)) = Some StatusNotFound \<and>
   URLParam (test_request ''PUT'' ''not a book'' ''ISBN 1'') ''ISBN'' \<noteq> [] \<and>
   BookList Init (URLParam (test_request ''PUT'' ''not a book'' ''ISBN 1'') ''ISBN'') \<noteq> None \<and>
   Decode_Book test_env (test_request ''PUT'' ''not a book'' ''ISBN 1'') = None \<and>
   Code (fst (updateBook test_env (NewWriter False)
      (test_request ''PUT'' ''not a book'' ''ISBN 1'') Init)) = Some StatusBadRequest \<and>
   URLParam (test_request ''PUT'' ''renumbered'' ''ISBN 1'') ''ISBN'' \<noteq> [] \<and>
   BookList Init (URLParam (test_request ''PUT'' ''renumbered'' ''ISBN 1'') ''ISBN'') \<noteq> None \<and>
   Decode_Book test_env (test_request ''PUT'' ''renumbered'' ''ISBN 1'') = Some renumbered \<and>
   snd (updateBook test_env (NewWriter False) (test_request ''PUT'' ''renumbered'' ''ISBN 1'') Init)
     = Init\<lparr>BookList := (BookList Init)
         (URLParam (test_request ''PUT'' ''renumbered'' ''ISBN 1'') ''ISBN'' \<mapsto> renumbered)\<rparr> \<and>
   Code (fst (updateBook test_env (NewWriter False)
      (test_request ''PUT'' ''renumbered'' ''ISBN 1'') Init)) = Some StatusOK \<and>
   Body (fst (updateBook test_env (NewWriter False)
      (test_request ''PUT'' ''renumbered'' ''ISBN 1'') Init)) = ''Book updated successfully''"
proof -
  have h1: "URLParam (test_request ''PUT'' ''renumbered'' []) ''ISBN'' = []"
    by (simp add: test_defs)
  have h2: "URLParam (test_request ''PUT'' ''renumbered'' ''ISBN 404'') ''ISBN'' \<noteq> [] \<and>
      BookList Init (URLParam (test_request ''PUT'' ''renumbered'' ''ISBN 404'') ''ISBN'') = None"
    by (simp add: test_defs)
  have h3: "URLParam (test_request ''PUT'' ''not a book'' ''ISBN 1'') ''ISBN'' \<noteq> [] \<and>
      BookList Init (URLParam (test_request ''PUT'' ''not a book'' ''ISBN 1'') ''ISBN'') \<noteq> None \<and>
      Decode_Book test_env (test_request ''PUT'' ''not a book'' ''ISBN 1'') = None"
    by (simp add: test_defs)
  have h4: "URLParam (test_request ''PUT'' ''renumbered'' ''ISBN 1'') ''ISBN'' \<noteq> [] \<and>
      BookList Init (URLParam (test_request ''PUT'' ''renumbered'' ''ISBN 1'') ''ISBN'') \<noteq> None \<and>
      Decode_Book test_env (test_request ''PUT'' ''renumbered'' ''ISBN 1'') = Some renumbered"
    by (simp add: test_defs)
  have r1: "Code (fst (updateBook test_env (NewWriter False)
      (test_request ''PUT'' ''renumbered'' []) Init)) = Some StatusBadRequest"
    using updateBook_cases [of "test_request ''PUT'' ''renumbered'' []" test_env False Init] h1
    by blast
  have r2: "Code (fst (updateBook test_env (NewWriter False)
      (test_request ''PUT'' ''renumbered'' ''ISBN 404'') Init)) = Some StatusNotFound"
    using updateBook_cases [of "test_request ''PUT'' ''renumbered'' ''ISBN 404''" test_env False Init]
      h2
    by blast
  have r3: "Code (fst (updateBook test_env (NewWriter False)
      (test_request ''PUT'' ''not a book'' ''ISBN 1'') Init)) = Some StatusBadRequest"
    using updateBook_cases [of "test_request ''PUT'' ''not a book'' ''ISBN 1''" test_env False Init]
      h3
    by blast
  have r4: "snd (updateBook test_env (NewWriter False)
        (test_request ''PUT'' ''renumbered'' ''ISBN 1'') Init)
      = Init\<lparr>BookList := (BookList Init)
          (URLParam (test_request ''PUT'' ''renumbered'' ''ISBN 1'') ''ISBN'' \<mapsto> renumbered)\<rparr> \<and>
      Code (fst (updateBook test_env (NewWriter False)
        (test_request ''PUT'' ''renumbered'' ''ISBN 1'') Init)) = Some StatusOK \<and>
      Body (fst (updateBook test_env (NewWriter False)
        (test_request ''PUT'' ''renumbered'' ''ISBN 1'') Init)) = ''Book updated successfully''"
    using updateBook_cases [of "test_request ''PUT'' ''renumbered'' ''ISBN 1''" test_env False Init]
      h4
    by blast
  show ?thesis
    using h1 h2 h3 h4 r1 r2 r3 r4 by blast
qed


text \<open>
  Claim C10. When the ISBN parameter \<open>k\<close> is a key of the book store and the body
  decodes to \<open>newBook\<close>, \<open>updateBook\<close> stores \<open>newBook\<close> as it is under \<open>k\<close>: the keys of
  the store are the same as before, and the record found at \<open>k\<close> has the ISBN field of
  \<open>newBook\<close>, so that when this field is not \<open>k\<close> the store holds an entry whose key is
  not the ISBN of its record. \<open>AddNewBook\<close> stores a valid book whose ISBN is not yet a
  key under the ISBN field of that book, and stores nothing under any other key.
\<close>

theorem updateBook_stores_verbatim:
  assumes "URLParam r ''ISBN'' = k" and "k \<noteq> []" and "BookList g k = Some old"
    and "Decode_Book e r = Some newBook"
  shows "BookList (snd (updateBook e w r g)) = (BookList g)(k \<mapsto> newBook) \<and>
         CredentialList (snd (updateBook e w r g)) = CredentialList g \<and>
         dom (BookList (snd (updateBook e w r g))) = dom (BookList g) \<and>
         map_option ISBN (BookList (snd (updateBook e w r g)) k) = Some (ISBN newBook) \<and>
         (ISBN newBook \<noteq> k \<longrightarrow>
            (\<exists>key b. BookList (snd (updateBook e w r g)) key = Some b \<and> ISBN b \<noteq> key)) \<and>
         (\<forall>b. Decode_Book e r' = Some b \<and> Book_Name b \<noteq> [] \<and> ISBN b \<noteq> [] \<and>
              Authors b \<noteq> [] \<and> BookList g (ISBN b) = None \<longrightarrow>
            snd (AddNewBook e w' r' g) = g\<lparr>BookList := (BookList g)(ISBN b \<mapsto> b)\<rparr> \<and>
            BookList (snd (AddNewBook e w' r' g)) (ISBN b) = Some b) \<and>
         (snd (AddNewBook e w' r' g) = g \<or>
          (\<exists>b. Decode_Book e r' = Some b \<and>
               snd (AddNewBook e w' r' g) = g\<lparr>BookList := (BookList g)(ISBN b \<mapsto> b)\<rparr>))"
proof -
  have upd: "snd (updateBook e w r g) = g\<lparr>BookList := (BookList g)(k \<mapsto> newBook)\<rparr>"
    using assms by (simp add: updateBook_def Let_def case_prod_beta)
  have dom_eq: "dom ((BookList g)(k \<mapsto> newBook)) = dom (BookList g)"
    using assms(3) by auto
  have add_new: "\<forall>b. Decode_Book e r' = Some b \<and> Book_Name b \<noteq> [] \<and> ISBN b \<noteq> [] \<and>
              Authors b \<noteq> [] \<and> BookList g (ISBN b) = None \<longrightarrow>
            snd (AddNewBook e w' r' g) = g\<lparr>BookList := (BookList g)(ISBN b \<mapsto> b)\<rparr> \<and>
            BookList (snd (AddNewBook e w' r' g)) (ISBN b) = Some b"
    by (simp add: AddNewBook_def)
  have add_only: "snd (AddNewBook e w' r' g) = g \<or>
          (\<exists>b. Decode_Book e r' = Some b \<and>
               snd (AddNewBook e w' r' g) = g\<lparr>BookList := (BookList g)(ISBN b \<mapsto> b)\<rparr>)"
    by (simp add: AddNewBook_def split: option.splits)
  have mismatch: "ISBN newBook \<noteq> k \<longrightarrow>
      (\<exists>key b. BookList (snd (updateBook e w r g)) key = Some b \<and> ISBN b \<noteq> key)"
  proof
    assume "ISBN newBook \<noteq> k"
    moreover have "BookList (snd (updateBook e w r g)) k = Some newBook"
      by (simp add: upd)
    ultimately show "\<exists>key b. BookList (snd (updateBook e w r g)) key = Some b \<and> ISBN b \<noteq> key"
      by blast
  qed
  have update_part: "BookList (snd (updateBook e w r g)) = (BookList g)(k \<mapsto> newBook) \<and>
         CredentialList (snd (updateBook e w r g)) = CredentialList g \<and>
         dom (BookList (snd (updateBook e w r g))) = dom (BookList g) \<and>
         map_option ISBN (BookList (snd (updateBook e w r g)) k) = Some (ISBN newBook)"
    using dom_eq by (simp add: upd)
  show ?thesis
    using update_part mismatch add_new add_only by blast
qed

text \<open>
  The record of "ISBN 1" replaced by a book whose ISBN field is "ISBN 3", and a new
  book added under its own ISBN.
\<close>

theorem updateBook_stores_verbatim_witness:
  "URLParam (test_request ''PUT'' ''renumbered'' ''ISBN 1'') ''ISBN'' = ''ISBN 1'' \<and>
   BookList Init ''ISBN 1'' = Some book1 \<and>
   Decode_Book test_env (test_request ''PUT'' ''renumbered'' ''ISBN 1'') = Some renumbered \<and>
   BookList (snd (updateBook test_env (NewWriter False)
      (test_request ''PUT'' ''renumbered'' ''ISBN 1'') Init))
     = (BookList Init)(''ISBN 1'' \<mapsto> renumbered) \<and>
   ISBN renumbered = ''ISBN 3'' \<and> ISBN renumbered \<noteq> ''ISBN 1'' \<and>
   dom (BookList (snd (updateBook test_env (NewWriter False)
      (test_request ''PUT'' ''renumbered'' ''ISBN 1'') Init))) = dom (BookList Init) \<and>
   Decode_Book test_env (test_request ''POST'' ''dune'' []) = Some dune \<and>
   Book_Name dune \<noteq> [] \<and> ISBN dune \<noteq> [] \<and> Authors dune \<noteq> [] \<and>
   BookList Init (ISBN dune) = None \<and>
   BookList (snd (AddNewBook test_env (NewWriter False) (test_request ''POST'' ''dune'' []) Init))
     (ISBN dune) = Some dune \<and>
   ISBN dune = ''ISBN-9''"
proof -
  have k: "URLParam (test_request ''PUT'' ''renumbered'' ''ISBN 1'') ''ISBN'' = ''ISBN 1''"
    by (simp add: test_defs)
  have n: "''ISBN 1'' \<noteq> []" by simp
  have p: "BookList Init ''ISBN 1'' = Some book1"
    by (simp add: Init_def book1_def book2_def)
  have d: "Decode_Book test_env (test_request ''PUT'' ''renumbered'' ''ISBN 1'') = Some renumbered"
    by (simp add: test_defs)
  have i: "ISBN renumbered = ''ISBN 3'' \<and> ISBN renumbered \<noteq> ''ISBN 1''"
    by (simp add: renumbered_def)
  have a: "Decode_Book test_env (test_request ''POST'' ''dune'' []) = Some dune \<and>
      Book_Name dune \<noteq> [] \<and> ISBN dune \<noteq> [] \<and> Authors dune \<noteq> [] \<and>
      BookList Init (ISBN dune) = None"
    by (simp add: test_defs dune_def)
  have j: "ISBN dune = ''ISBN-9''"
    by (simp add: dune_def)
  note t = updateBook_stores_verbatim [OF k n p d, where w = "NewWriter False"
      and w' = "NewWriter False" and r' = "test_request ''POST'' ''dune'' []"]
  have added: "BookList (snd (AddNewBook test_env (NewWriter False)
      (test_request ''POST'' ''dune'' []) Init)) (ISBN dune) = Some dune"
    using t a by blast
  have updated: "BookList (snd (updateBook test_env (NewWriter False)
      (test_request ''PUT'' ''renumbered'' ''ISBN 1'') Init))
     = (BookList Init)(''ISBN 1'' \<mapsto> renumbered) \<and>
     dom (BookList (snd (updateBook test_env (NewWriter False)
      (test_request ''PUT'' ''renumbered'' ''ISBN 1'') Init))) = dom (BookList Init)"
    using t by blast
  show ?thesis
    using k p d i a j added updated by blast
qed


section \<open>Failures and the stores\<close>



text \<open>
  \<open>updateBook\<close> assigns the map before it writes its answer. When that write fails, the
  status already written is 200 and the record is replaced; the handler's call of
  \<open>http.Error\<close> after it cannot change the status any more.
\<close>

lemma updateBook_failed_write:
  "Code (fst (updateBook test_env (NewWriter True)
      (test_request ''PUT'' ''renumbered'' ''ISBN 1'') Init)) = Some StatusOK \<and>
   Errors (fst (updateBook test_env (NewWriter True)
      (test_request ''PUT'' ''renumbered'' ''ISBN 1'') Init))
     = [(''Can not write data'', StatusInternalServerError)] \<and>
   BookList (snd (updateBook test_env (NewWriter True)
      (test_request ''PUT'' ''renumbered'' ''ISBN 1'') Init)) ''ISBN 1'' = Some renumbered"
  by (simp add: updateBook_def Let_def case_prod_beta writer_simps test_defs renumbered_def)


section \<open>The book handlers and the session cookie\<close>

lemma Decode_Book_Cookies: "Decode_Book e (r\<lparr>Cookies := c\<rparr>) = Decode_Book e r"
  by (simp add: Decode_Book_def)

lemma Decode_Credentials_Cookies:
  "Decode_Credentials e (r\<lparr>Cookies := c\<rparr>) = Decode_Credentials e r"
  by (simp add: Decode_Credentials_def)

lemma URLParam_Cookies: "URLParam (r\<lparr>Cookies := c\<rparr>) key = URLParam r key"
  by (simp add: URLParam_def)

lemma Request_Cookies:
  "Method (r\<lparr>Cookies := c\<rparr>) = Method r" "Req_Body (r\<lparr>Cookies := c\<rparr>) = Req_Body r"
  by simp_all

lemma auth_handlers_ignore_cookies:
  "Login e w (r\<lparr>Cookies := c\<rparr>) g = Login e w r g"
  "Logout e w (r\<lparr>Cookies := c\<rparr>) g = Logout e w r g"
  "SignIn e w (r\<lparr>Cookies := c\<rparr>) g = SignIn e w r g"
  unfolding Login_def Logout_def SignIn_def Decode_Credentials_Cookies Request_Cookies
  by (rule refl)+

lemma routed_handlers_ignore_cookies:
  assumes "(m, p, h) \<in> set RunServer_routes"
  shows "h e w (r\<lparr>Cookies := c\<rparr>) g = h e w r g"
proof -
  have book:
    "getAllBooks e w (r\<lparr>Cookies := c\<rparr>) g = getAllBooks e w r g"
    "AddNewBook e w (r\<lparr>Cookies := c\<rparr>) g = AddNewBook e w r g"
    "updateBook e w (r\<lparr>Cookies := c\<rparr>) g = updateBook e w r g"
    "deleteBook e w (r\<lparr>Cookies := c\<rparr>) g = deleteBook e w r g"
    unfolding getAllBooks_def AddNewBook_def updateBook_def deleteBook_def Decode_Book_Cookies
      URLParam_Cookies
    by (rule refl)+
  from assms have "h = SignIn \<or> h = Login \<or> h = Logout \<or> h = AddNewBook \<or> h = updateBook \<or>
      h = deleteBook \<or> h = getAllBooks"
    unfolding RunServer_routes_def by auto
  then show ?thesis
    using book auth_handlers_ignore_cookies [of e w c r g] by blast
qed

text \<open>
  Claim C8. The writer and the globals that \<open>getAllBooks\<close>, \<open>AddNewBook\<close>, \<open>updateBook\<close>
  and \<open>deleteBook\<close> return are the same for two requests that differ only in the
  cookies they carry, and so is the answer of the router that \<open>RunServer\<close> builds:
  nothing looks at the cookies before the book store is read or changed.
\<close>

theorem book_handlers_ignore_cookies:
  "getAllBooks e w (r\<lparr>Cookies := c\<rparr>) g = getAllBooks e w r g \<and>
   AddNewBook e w (r\<lparr>Cookies := c\<rparr>) g = AddNewBook e w r g \<and>
   updateBook e w (r\<lparr>Cookies := c\<rparr>) g = updateBook e w r g \<and>
   deleteBook e w (r\<lparr>Cookies := c\<rparr>) g = deleteBook e w r g \<and>
   ServeHTTP e w (r\<lparr>Cookies := c\<rparr>) g = ServeHTTP e w r g"
proof -
  have handlers:
    "getAllBooks e w (r\<lparr>Cookies := c\<rparr>) g = getAllBooks e w r g"
    "AddNewBook e w (r\<lparr>Cookies := c\<rparr>) g = AddNewBook e w r g"
    "updateBook e w (r\<lparr>Cookies := c\<rparr>) g = updateBook e w r g"
    "deleteBook e w (r\<lparr>Cookies := c\<rparr>) g = deleteBook e w r g"
    unfolding getAllBooks_def AddNewBook_def updateBook_def deleteBook_def Decode_Book_Cookies
      URLParam_Cookies
    by (rule refl)+
  have served: "ServeHTTP e w (r\<lparr>Cookies := c\<rparr>) g = ServeHTTP e w r g"
  proof (cases "find (\<lambda>(m, p, h). m = Method r \<and> p = URL_Path r)
      (RunServer_routes :: (string \<times> string \<times> 'a Handler) list)")
    case None
    then show ?thesis by (simp add: ServeHTTP_def)
  next
    case (Some route)
    obtain m p h where route: "route = (m, p, h)" by (cases route)
    from Some route have "(m, p, h) \<in> set (RunServer_routes :: (string \<times> string \<times> 'a Handler) list)"
      by (auto simp add: find_Some_iff in_set_conv_nth)
    then have "h e w ((r\<lparr>URLParams := []\<rparr>)\<lparr>Cookies := c\<rparr>) g = h e w (r\<lparr>URLParams := []\<rparr>) g"
      by (rule routed_handlers_ignore_cookies)
    moreover have "(r\<lparr>Cookies := c\<rparr>)\<lparr>URLParams := []\<rparr> = (r\<lparr>URLParams := []\<rparr>)\<lparr>Cookies := c\<rparr>"
      by (cases r) simp
    ultimately have "h e w ((r\<lparr>Cookies := c\<rparr>)\<lparr>URLParams := []\<rparr>) g = h e w (r\<lparr>URLParams := []\<rparr>) g"
      by (simp only:)
    with Some route show ?thesis by (simp add: ServeHTTP_def)
  qed
  show ?thesis
    using handlers served by simp
qed

text \<open>
  Through the router, a request with a forged \<open>jwt\<close> cookie adds a book as the one
  without a cookie does.
\<close>

theorem book_handlers_ignore_cookies_witness:
  "ServeHTTP test_env (NewWriter False)
      ((routed_request ''POST'' ''/newBook'' ''dune'')\<lparr>Cookies := [(''jwt'', ''forged'')]\<rparr>) Init
     = ServeHTTP test_env (NewWriter False) (routed_request ''POST'' ''/newBook'' ''dune'') Init \<and>
   Cookies (routed_request ''POST'' ''/newBook'' ''dune'') = [] \<and>
   map_option (\<lambda>res. BookList (snd res) ''ISBN-9'')
     (ServeHTTP test_env (NewWriter False)
        ((routed_request ''POST'' ''/newBook'' ''dune'')\<lparr>Cookies := [(''jwt'', ''forged'')]\<rparr>) Init)
     = Some (Some dune) \<and>
   BookList Init ''ISBN-9'' = None"
proof -
  have s: "map_option (\<lambda>res. BookList (snd res) ''ISBN-9'')
     (ServeHTTP test_env (NewWriter False) (routed_request ''POST'' ''/newBook'' ''dune'') Init)
     = Some (Some dune)"
    by (simp add: ServeHTTP_def RunServer_routes_def AddNewBook_def routed_request_def test_env_def
        Decode_Book_def dune_def Init_def book1_def book2_def)
  have c: "Cookies (routed_request ''POST'' ''/newBook'' ''dune'') = []"
    by (simp add: routed_request_def)
  have i: "BookList Init ''ISBN-9'' = None"
    by (simp add: Init_def book1_def book2_def)
  show ?thesis
    using book_handlers_ignore_cookies [where e = test_env and w = "NewWriter False"
        and r = "routed_request ''POST'' ''/newBook'' ''dune''" and c = "[(''jwt'', ''forged'')]"
        and g = Init] s c i
    by simp
qed

text \<open>
  The patterns \<open>/updateBook\<close> and \<open>/deleteBook\<close> have no \<open>ISBN\<close> placeholder, so through
  the router both handlers read an empty ISBN and answer 400.
\<close>

lemma routed_update_delete_Invalid_ISBN:
  assumes "URL_Path r = ''/updateBook'' \<and> Method r = ''PUT'' \<or>
           URL_Path r = ''/deleteBook'' \<and> Method r = ''DELETE''"
  shows "\<exists>w'. ServeHTTP e (NewWriter br) r g = Some (w', g) \<and>
           Code w' = Some StatusBadRequest \<and>
           Errors w' = [(''Invalid ISBN'', StatusBadRequest)]"
proof -
  have u: "updateBook e (NewWriter br) (r\<lparr>URLParams := []\<rparr>) g
      = (http_Error (NewWriter br) ''Invalid ISBN'' StatusBadRequest, g)"
    by (simp add: updateBook_def URLParam_def)
  have d: "deleteBook e (NewWriter br) (r\<lparr>URLParams := []\<rparr>) g
      = (http_Error (NewWriter br) ''Invalid ISBN'' StatusBadRequest, g)"
    by (simp add: deleteBook_def URLParam_def)
  from assms show ?thesis
  proof
    assume "URL_Path r = ''/updateBook'' \<and> Method r = ''PUT''"
    then have "ServeHTTP e (NewWriter br) r g
        = Some (http_Error (NewWriter br) ''Invalid ISBN'' StatusBadRequest, g)"
      by (simp add: ServeHTTP_def RunServer_routes_def u)
    then show ?thesis by (simp add: writer_simps)
  next
    assume "URL_Path r = ''/deleteBook'' \<and> Method r = ''DELETE''"
    then have "ServeHTTP e (NewWriter br) r g
        = Some (http_Error (NewWriter br) ''Invalid ISBN'' StatusBadRequest, g)"
      by (simp add: ServeHTTP_def RunServer_routes_def d)
    then show ?thesis by (simp add: writer_simps)
  qed
qed


section \<open>Logging out\<close>

text \<open>
  Claim C9. For every request \<open>Logout\<close> answers 200, reports no error, leaves both
  stores alone and sets one cookie, named \<open>jwt\<close>, with an empty value and with \<open>Expires\<close>
  equal to the reading of the clock. The response is produced by \<open>WriteHeader\<close>, which
  \<open>Logout\<close> calls after \<open>time.Now()\<close> has returned: at that moment \<open>t\<close>, an instant after
  the reading, the cookie is expired.
\<close>

theorem Logout_always_ok:
  assumes "time_Now e < t"
  shows "Code (fst (Logout e (NewWriter br) r g)) = Some StatusOK \<and>
         Errors (fst (Logout e (NewWriter br) r g)) = [] \<and>
         SetCookies (fst (Logout e (NewWriter br) r g))
           = [\<lparr>Cookie_Name = ''jwt'', Value = [], Expires = time_Now e\<rparr>] \<and>
         list_all (expired_at t) (SetCookies (fst (Logout e (NewWriter br) r g))) \<and>
         snd (Logout e (NewWriter br) r g) = g"
  using assms by (simp add: Logout_def Let_def writer_simps expired_at_def)

text \<open>The cookie set at the second 1700000000 is expired one nanosecond later.\<close>

theorem Logout_always_ok_witness:
  "time_Now test_env < 1700000000000000001 \<and>
   Code (fst (Logout test_env (NewWriter False) (test_request ''POST'' [] []) Init))
     = Some StatusOK \<and>
   list_all (expired_at 1700000000000000001)
     (SetCookies (fst (Logout test_env (NewWriter False) (test_request ''POST'' [] []) Init))) \<and>
   snd (Logout test_env (NewWriter False) (test_request ''POST'' [] []) Init) = Init"
proof -
  have later: "time_Now test_env < 1700000000000000001"
    by (simp add: test_env_def Second_def)
  show ?thesis
    using Logout_always_ok [OF later, of False "test_request ''POST'' [] []" Init] later
    by blast
qed

end
